theory Spec2Isabelle
  imports Complex_Main "HOL-Library.Sublist"
begin

section \<open>Values exchanged with the store and the remote API\<close>

text \<open>
  Python floats. A finite float is kept as the rational it denotes; the three special
  values are separate constructors. The literal \<^verbatim>\<open>0.7\<close> of the source is the
  binary64 number nearest to 7/10.
\<close>

datatype pyfloat = Finite rat | PosInf | NegInf | NaN

text \<open>Python's \<^verbatim>\<open>a <= b\<close> on floats: every comparison with NaN is false.\<close>

fun float_le :: "pyfloat \<Rightarrow> pyfloat \<Rightarrow> bool" where
  "float_le NaN b = False"
| "float_le a NaN = False"
| "float_le NegInf b = True"
| "float_le a PosInf = True"
| "float_le (Finite a) (Finite b) = (a \<le> b)"
| "float_le a b = False"

definition float_0_7 :: pyfloat where
  "float_0_7 = Finite (6305039478318694 / 9007199254740992)"

text \<open>
  What \<^verbatim>\<open>json.loads\<close> returns and \<^verbatim>\<open>json.dumps\<close> accepts. The text columns
  \<^verbatim>\<open>users.settings\<close> and \<^verbatim>\<open>sessions.history\<close> hold the output of
  \<^verbatim>\<open>json.dumps\<close> and are only ever read back through \<^verbatim>\<open>json.loads\<close>; the
  model keeps the decoded value in the column, dumps followed by loads being the identity
  on these values. An object is the list of its items in insertion order.
\<close>

datatype json =
    JNull
  | JBool bool
  | JInt int
  | JFloat pyfloat
  | JStr string
  | JList "json list"
  | JDict "(string \<times> json) list"

datatype error =
    ValueError
  | KeyError
  | IndexError
  | TypeError
  | OverflowError
  | IntegrityError
  | BindError
  | ClientError
  | BodyReadError
  | DecodeError
  | APIError int string

type_synonym timestamp = nat

section \<open>Database\<close>

text \<open>
  The three tables of \<^verbatim>\<open>_initialize_db\<close>. \<^verbatim>\<open>user_id\<close> is the primary key of
  \<^verbatim>\<open>users\<close> and of \<^verbatim>\<open>sessions\<close>, so each is a map from the id to the rest of
  the row. \<^verbatim>\<open>conversations\<close> is the list of its rows in insertion order, with the
  AUTOINCREMENT counter beside it. Columns with \<^verbatim>\<open>DEFAULT CURRENT_TIMESTAMP\<close> take
  the time of the statement, which every writing operation receives as \<open>now\<close>.
  SQLite does not enforce the foreign keys unless asked to, and the code never asks.
\<close>

record user_row =
  username :: "string option"
  created_at :: timestamp
  settings :: "string \<rightharpoonup> json"

text \<open>
  What the \<^verbatim>\<open>sqlite3\<close> module binds to a \<^verbatim>\<open>?\<close>. \<^verbatim>\<open>None\<close> is NULL; an
  \<^verbatim>\<open>int\<close> is an INTEGER when it fits 64 bits and an \<^verbatim>\<open>OverflowError\<close> otherwise; a
  \<^verbatim>\<open>bool\<close> is the \<^verbatim>\<open>int\<close> 1 or 0; a \<^verbatim>\<open>float\<close> is a REAL, NaN being bound as NULL;
  a \<^verbatim>\<open>str\<close> is a TEXT. A list or a dict is not supported: \<^verbatim>\<open>execute\<close> raises and
  the statement does not run (\<open>BindError\<close>).
\<close>

datatype sql_value = SqlNull | SqlInteger int | SqlReal pyfloat | SqlText string

fun sqlite_bind :: "json \<Rightarrow> error + sql_value" where
  "sqlite_bind JNull = Inr SqlNull"
| "sqlite_bind (JBool b) = Inr (SqlInteger (if b then 1 else 0))"
| "sqlite_bind (JInt i) =
     (if - (2 ^ 63) \<le> i \<and> i < 2 ^ 63 then Inr (SqlInteger i) else Inl OverflowError)"
| "sqlite_bind (JFloat NaN) = Inr SqlNull"
| "sqlite_bind (JFloat f) = Inr (SqlReal f)"
| "sqlite_bind (JStr s) = Inr (SqlText s)"
| "sqlite_bind (JList xs) = Inl BindError"
| "sqlite_bind (JDict items) = Inl BindError"

text \<open>
  The column \<^verbatim>\<open>bot_response\<close> has TEXT affinity: a number bound to it is stored as the
  text SQLite renders it to. The row keeps the bound number, which stands for that text.
  \<^verbatim>\<open>user_message\<close> is the text of the Telegram message, a \<^verbatim>\<open>str\<close>.
\<close>

record conversation_row =
  conv_id :: nat
  conv_user_id :: int
  user_message :: string
  bot_response :: sql_value
  conv_timestamp :: timestamp

record session_row =
  history :: "json list"
  updated_at :: timestamp

record database =
  users :: "int \<rightharpoonup> user_row"
  conversations :: "conversation_row list"
  conv_seq :: nat
  sessions :: "int \<rightharpoonup> session_row"

definition user_exists :: "database \<Rightarrow> int \<Rightarrow> bool" where
  "user_exists db user_id = (users db user_id \<noteq> None)"

definition default_model :: string where
  "default_model = ''claude-3-7-sonnet-20250219''"

definition default_settings :: "string \<rightharpoonup> json" where
  "default_settings =
     [''model'' \<mapsto> JStr default_model,
      ''temperature'' \<mapsto> JFloat float_0_7,
      ''max_tokens'' \<mapsto> JInt 4000]"

text \<open>
  \<^verbatim>\<open>INSERT INTO users\<close> with a \<^verbatim>\<open>user_id\<close> that is already a primary key raises
  \<^verbatim>\<open>sqlite3.IntegrityError\<close>; nothing has been committed then.
\<close>

definition register_user ::
  "timestamp \<Rightarrow> database \<Rightarrow> int \<Rightarrow> string option \<Rightarrow> error + database" where
  "register_user now db user_id uname =
     (if users db user_id \<noteq> None then Inl IntegrityError
      else Inr (db\<lparr>users := (users db)(user_id \<mapsto>
             \<lparr>username = uname, created_at = now, settings = default_settings\<rparr>)\<rparr>))"

definition get_user_settings :: "database \<Rightarrow> int \<Rightarrow> (string \<rightharpoonup> json)" where
  "get_user_settings db user_id =
     (case users db user_id of Some row \<Rightarrow> settings row | None \<Rightarrow> Map.empty)"

text \<open>\<^verbatim>\<open>UPDATE users SET settings = ? WHERE user_id = ?\<close> changes the rows that match: one or none.\<close>

definition update_user_setting :: "database \<Rightarrow> int \<Rightarrow> string \<Rightarrow> json \<Rightarrow> database" where
  "update_user_setting db user_id key val =
     (let new_settings = (get_user_settings db user_id)(key \<mapsto> val)
      in case users db user_id of
           None \<Rightarrow> db
         | Some row \<Rightarrow> db\<lparr>users := (users db)(user_id \<mapsto> row\<lparr>settings := new_settings\<rparr>)\<rparr>)"

text \<open>
  \<^verbatim>\<open>log_conversation\<close> declares \<^verbatim>\<open>bot_response: str\<close>; Python does not check it, and
  \<^verbatim>\<open>handle_message\<close> passes whatever \<^verbatim>\<open>content[0].text\<close> is. When the value cannot be
  bound the INSERT raises and no row is written.
\<close>

definition log_conversation ::
  "timestamp \<Rightarrow> database \<Rightarrow> int \<Rightarrow> string \<Rightarrow> json \<Rightarrow> error + database" where
  "log_conversation now db user_id user_msg bot_resp =
     (case sqlite_bind bot_resp of
        Inl e \<Rightarrow> Inl e
      | Inr bound \<Rightarrow>
          Inr (db\<lparr>conversations := conversations db @
                   [\<lparr>conv_id = Suc (conv_seq db), conv_user_id = user_id,
                     user_message = user_msg, bot_response = bound, conv_timestamp = now\<rparr>],
                 conv_seq := Suc (conv_seq db)\<rparr>))"

section \<open>Session manager\<close>

definition get_session :: "database \<Rightarrow> int \<Rightarrow> json list" where
  "get_session db user_id =
     (case sessions db user_id of Some row \<Rightarrow> history row | None \<Rightarrow> [])"

definition max_messages :: nat where
  "max_messages = 10"

text \<open>
  For a list longer than 20 the slice \<^verbatim>\<open>history[-max_messages * 2:]\<close> starts at index
  \<^verbatim>\<open>len(history) - 20\<close>. \<^verbatim>\<open>INSERT OR REPLACE\<close> writes the row whether or not one
  was there.
\<close>

definition update_session :: "timestamp \<Rightarrow> database \<Rightarrow> int \<Rightarrow> json list \<Rightarrow> database" where
  "update_session now db user_id hist =
     (let hist' = (if length hist > max_messages * 2
                   then drop (length hist - max_messages * 2) hist else hist)
      in db\<lparr>sessions := (sessions db)(user_id \<mapsto> \<lparr>history = hist', updated_at = now\<rparr>)\<rparr>)"

definition clear_session :: "timestamp \<Rightarrow> database \<Rightarrow> int \<Rightarrow> database" where
  "clear_session now db user_id =
     (case sessions db user_id of
        None \<Rightarrow> db
      | Some row \<Rightarrow> db\<lparr>sessions := (sessions db)(user_id \<mapsto> \<lparr>history = [], updated_at = now\<rparr>)\<rparr>)"

text \<open>The spec's words for truncation: the last \<open>n\<close> entries of a sequence.\<close>

definition keep_last :: "nat \<Rightarrow> 'a list \<Rightarrow> 'a list" where
  "keep_last n xs = rev (take n (rev xs))"

text \<open>The database that \<^verbatim>\<open>_initialize_db\<close> creates: three empty tables.\<close>

definition empty_db :: database where
  "empty_db = \<lparr>users = Map.empty, conversations = [], conv_seq = 0, sessions = Map.empty\<rparr>"

text \<open>
  The states the store can be in: the fresh database, and whatever an operation of
  \<^verbatim>\<open>Database\<close> or \<^verbatim>\<open>SessionManager\<close> makes of a state it can be in.
\<close>

inductive reachable :: "database \<Rightarrow> bool" where
  fresh: "reachable empty_db"
| registered: "reachable db \<Longrightarrow> register_user now db user_id uname = Inr db' \<Longrightarrow> reachable db'"
| setting: "reachable db \<Longrightarrow> reachable (update_user_setting db user_id key val)"
| logged: "reachable db \<Longrightarrow> log_conversation now db user_id user_msg bot_resp = Inr db' \<Longrightarrow>
     reachable db'"
| saved: "reachable db \<Longrightarrow> reachable (update_session now db user_id hist)"
| cleared: "reachable db \<Longrightarrow> reachable (clear_session now db user_id)"

section \<open>Model client\<close>

text \<open>
  The body of the POST request. \<^verbatim>\<open>system\<close> is a key of the payload only when the
  argument is truthy: neither \<^verbatim>\<open>None\<close> nor the empty string.
\<close>

record payload =
  p_model :: json
  p_messages :: "json list"
  p_max_tokens :: json
  p_temperature :: json
  p_system :: "string option"

text \<open>
  What the code reads of an aiohttp response: \<^verbatim>\<open>response.status\<close>,
  \<^verbatim>\<open>await response.text()\<close> and \<^verbatim>\<open>await response.json()\<close>. Each of the two
  awaits can raise, \<open>None\<close> here: \<^verbatim>\<open>text()\<close> when the body cannot be read or decoded
  to a string, \<^verbatim>\<open>json()\<close> when the body is not JSON. \<open>NoResponse\<close> is a call of
  \<^verbatim>\<open>session.post\<close> that ends in a transport exception instead of a response.
\<close>

record http_response =
  status :: int
  body_text :: "string option"
  body_json :: "json option"

datatype http_outcome = NoResponse | Response http_response

text \<open>
  The remote API is a parameter: the outcome of one call of \<^verbatim>\<open>session.post\<close> with a
  payload, after whatever aiohttp does within that call (the redirects it follows are
  part of the call). \<open>posted\<close> is the list of the payloads that \<^verbatim>\<open>session.post\<close> has
  been called with so far, not of the requests on the wire; it is threaded through so
  that a second call after a failure would show.
\<close>

definition send_message ::
  "(payload \<Rightarrow> http_outcome) \<Rightarrow> payload list \<Rightarrow> json list \<Rightarrow> json \<Rightarrow> json \<Rightarrow> json \<Rightarrow>
   string option \<Rightarrow> payload list \<times> (error + json)" where
  "send_message api posted messages model temperature max_tokens system =
     (let request = \<lparr>p_model = model, p_messages = messages, p_max_tokens = max_tokens,
                      p_temperature = temperature,
                      p_system = (case system of None \<Rightarrow> None
                                  | Some s \<Rightarrow> if s = [] then None else Some s)\<rparr>;
          posted' = posted @ [request]
      in case api request of
           NoResponse \<Rightarrow> (posted', Inl ClientError)
         | Response response \<Rightarrow>
             if status response \<noteq> 200
             then (posted', case body_text response of
                              None \<Rightarrow> Inl BodyReadError
                            | Some error_text \<Rightarrow>
                                Inl (APIError (status response) error_text))
             else (posted', case body_json response of
                              None \<Rightarrow> Inl DecodeError
                            | Some parsed \<Rightarrow> Inr parsed))"

section \<open>Subscripts\<close>

datatype subscript = Key string | Pos int

text \<open>
  Python's \<^verbatim>\<open>obj[i]\<close> on a decoded JSON value. The keys of an object are strings, so an
  integer is never one of them; a list or a string takes integers only, negative ones
  counting from the end; nothing else can be subscripted.
\<close>

definition seq_item :: "'a list \<Rightarrow> int \<Rightarrow> error + 'a" where
  "seq_item xs i =
     (if 0 \<le> i \<and> i < int (length xs) then Inr (xs ! nat i)
      else if i < 0 \<and> - int (length xs) \<le> i then Inr (xs ! nat (int (length xs) + i))
      else Inl IndexError)"

fun getitem :: "json \<Rightarrow> subscript \<Rightarrow> error + json" where
  "getitem (JDict items) (Key k) =
     (case map_of items k of None \<Rightarrow> Inl KeyError | Some v \<Rightarrow> Inr v)"
| "getitem (JDict items) (Pos i) = Inl KeyError"
| "getitem (JList xs) (Pos i) = seq_item xs i"
| "getitem (JList xs) (Key k) = Inl TypeError"
| "getitem (JStr s) (Pos i) =
     (case seq_item s i of Inl e \<Rightarrow> Inl e | Inr c \<Rightarrow> Inr (JStr [c]))"
| "getitem (JStr s) (Key k) = Inl TypeError"
| "getitem v sub = Inl TypeError"

text \<open>\<^verbatim>\<open>response["content"][0]["text"]\<close>\<close>

definition content_0_text :: "json \<Rightarrow> error + json" where
  "content_0_text response =
     (case getitem response (Key ''content'') of
        Inl e \<Rightarrow> Inl e
      | Inr content \<Rightarrow>
          (case getitem content (Pos 0) of
             Inl e \<Rightarrow> Inl e
           | Inr block \<Rightarrow> getitem block (Key ''text'')))"

text \<open>\<^verbatim>\<open>d.get(key, default)\<close>\<close>

definition dict_get :: "('k \<rightharpoonup> 'v) \<Rightarrow> 'k \<Rightarrow> 'v \<Rightarrow> 'v" where
  "dict_get d key dflt = (case d key of None \<Rightarrow> dflt | Some v \<Rightarrow> v)"

section \<open>Handlers\<close>

text \<open>
  The fixed texts the bot sends, by what they say, and the two that carry a value.
  \<open>Greeting\<close> is the text of \<^verbatim>\<open>/start\<close>, \<open>HistoryCleared\<close> that of \<^verbatim>\<open>/clear\<close>;
  \<open>ModelMissing\<close> and \<open>TempMissing\<close> ask for the argument that was left out;
  \<open>TempNotNumeric\<close> asks for a correct numeric value; \<open>TempOutOfRange\<close> says that the
  temperature must lie between 0.0 and 1.0; \<open>RequestFailed\<close> is the apology that asks to
  try again later.
\<close>

datatype message =
    Greeting
  | HistoryCleared
  | ModelMissing
  | ModelChanged string
  | TempMissing
  | TempSet pyfloat
  | TempOutOfRange
  | TempNotNumeric
  | ModelReply json
  | RequestFailed

text \<open>What a handler does besides touching the store, in order.\<close>

datatype bot_event = SendTyping | ReplyText message | LogError error

definition start_command ::
  "timestamp \<Rightarrow> database \<Rightarrow> int \<Rightarrow> string option \<Rightarrow> error + database \<times> bot_event list" where
  "start_command now db user_id uname =
     (if \<not> user_exists db user_id
      then (case register_user now db user_id uname of
              Inl e \<Rightarrow> Inl e
            | Inr db' \<Rightarrow> Inr (db', [ReplyText Greeting]))
      else Inr (db, [ReplyText Greeting]))"

definition clear_command :: "timestamp \<Rightarrow> database \<Rightarrow> int \<Rightarrow> database \<times> bot_event list" where
  "clear_command now db user_id = (clear_session now db user_id, [ReplyText HistoryCleared])"

definition set_model_command :: "database \<Rightarrow> int \<Rightarrow> string list \<Rightarrow> database \<times> bot_event list" where
  "set_model_command db user_id args =
     (case args of
        [] \<Rightarrow> (db, [ReplyText ModelMissing])
      | model # rest \<Rightarrow>
          (update_user_setting db user_id ''model'' (JStr model), [ReplyText (ModelChanged model)]))"

text \<open>
  Python's \<^verbatim>\<open>float\<close> on a string is a parameter, \<open>None\<close> standing for its
  \<^verbatim>\<open>ValueError\<close>: what is proved holds of whatever it parses.
\<close>

definition set_temp_command ::
  "(string \<Rightarrow> pyfloat option) \<Rightarrow> database \<Rightarrow> int \<Rightarrow> string list \<Rightarrow> database \<times> bot_event list" where
  "set_temp_command float db user_id args =
     (case args of
        [] \<Rightarrow> (db, [ReplyText TempMissing])
      | arg # rest \<Rightarrow>
          (case float arg of
             None \<Rightarrow> (db, [ReplyText TempNotNumeric])
           | Some temp \<Rightarrow>
               if float_le (Finite 0) temp \<and> float_le temp (Finite 1)
               then (update_user_setting db user_id ''temperature'' (JFloat temp),
                     [ReplyText (TempSet temp)])
               else (db, [ReplyText TempOutOfRange])))"

definition turn :: "string \<Rightarrow> json \<Rightarrow> json" where
  "turn role content = JDict [(''role'', JStr role), (''content'', content)]"

text \<open>
  \<^verbatim>\<open>handle_message\<close>. The handler's \<^verbatim>\<open>except Exception\<close> catches whatever
  \<^verbatim>\<open>send_message\<close>, the subscripts or \<^verbatim>\<open>log_conversation\<close> raise; when the last one
  raises, the session has been saved and the reply sent, and the failure message follows.
  \<^verbatim>\<open>json.dumps\<close> in \<^verbatim>\<open>update_session\<close> accepts every decoded JSON value. The two
  writes of the success path happen at their own times. Disk failures of the store and
  failures of the delivery to the chat are outside the model. Line 152 of \<^verbatim>\<open>main.py\<close> has a file name spliced into its keyword; it is
  read as \<^verbatim>\<open>except Exception as e:\<close>, the only reading under which the handler parses.
\<close>

definition handle_message ::
  "(payload \<Rightarrow> http_outcome) \<Rightarrow> timestamp \<Rightarrow> timestamp \<Rightarrow> database \<Rightarrow> payload list \<Rightarrow> int \<Rightarrow>
   string \<Rightarrow> database \<times> payload list \<times> bot_event list" where
  "handle_message api t_session t_log db posted user_id user_msg =
     (let stored = get_user_settings db user_id;
          hist = get_session db user_id @ [turn ''user'' (JStr user_msg)];
          (posted', response) =
             send_message api posted hist
               (dict_get stored ''model'' (JStr ''claude-3-7-sonnet-20250219''))
               (dict_get stored ''temperature'' (JFloat float_0_7))
               (dict_get stored ''max_tokens'' (JInt 4000))
               None
      in case (case response of Inl e \<Rightarrow> Inl e | Inr parsed \<Rightarrow> content_0_text parsed) of
           Inl e \<Rightarrow> (db, posted', [SendTyping, LogError e, ReplyText RequestFailed])
         | Inr claude_response \<Rightarrow>
             (let hist' = hist @ [turn ''assistant'' claude_response];
                  db1 = update_session t_session db user_id hist'
              in case log_conversation t_log db1 user_id user_msg claude_response of
                   Inl e \<Rightarrow>
                     (db1, posted',
                      [SendTyping, ReplyText (ModelReply claude_response), LogError e,
                       ReplyText RequestFailed])
                 | Inr db2 \<Rightarrow>
                     (db2, posted', [SendTyping, ReplyText (ModelReply claude_response)])))"

text \<open>
  The payload that \<^verbatim>\<open>handle_message\<close> posts: the arguments of its call of
  \<^verbatim>\<open>send_message\<close>, which passes no \<^verbatim>\<open>system\<close>.
\<close>

definition model_request :: "database \<Rightarrow> int \<Rightarrow> string \<Rightarrow> payload" where
  "model_request db user_id user_msg =
     \<lparr>p_model = dict_get (get_user_settings db user_id) ''model'' (JStr ''claude-3-7-sonnet-20250219''),
      p_messages = get_session db user_id @ [turn ''user'' (JStr user_msg)],
      p_max_tokens = dict_get (get_user_settings db user_id) ''max_tokens'' (JInt 4000),
      p_temperature = dict_get (get_user_settings db user_id) ''temperature'' (JFloat float_0_7),
      p_system = None\<rparr>"

section \<open>Session history: truncation, round trip, clearing\<close>

lemma keep_last_drop: "keep_last n xs = drop (length xs - n) xs"
  by (simp add: keep_last_def rev_take)

lemma stored_history:
  "get_session (update_session now db uid x) uid =
     (if 20 < length x then drop (length x - 20) x else x)"
  by (simp add: get_session_def update_session_def max_messages_def)

lemma get_session_update_other:
  "u \<noteq> uid \<Longrightarrow> get_session (update_session now db uid x) u = get_session db u"
  by (simp add: get_session_def update_session_def Let_def)

lemma get_session_clear:
  "get_session (clear_session now db uid) u = (if u = uid then [] else get_session db u)"
  by (simp add: get_session_def clear_session_def split: option.splits)

lemma reachable_sessions_bounded:
  "reachable db \<Longrightarrow> length (get_session db u) \<le> 20"
proof (induction arbitrary: u rule: reachable.induct)
  case fresh
  show ?case by (simp add: get_session_def empty_db_def)
next
  case (registered db now user_id uname db')
  from registered.hyps(2) have "sessions db' = sessions db"
    by (auto simp: register_user_def split: if_splits)
  with registered.IH [of u] show ?case by (simp add: get_session_def)
next
  case (setting db user_id key val)
  have "sessions (update_user_setting db user_id key val) = sessions db"
    by (simp add: update_user_setting_def split: option.splits)
  with setting.IH [of u] show ?case by (simp add: get_session_def)
next
  case (logged db now user_id user_msg bot_resp db')
  from logged.hyps(2) have "sessions db' = sessions db"
    by (auto simp: log_conversation_def split: sum.splits)
  with logged.IH [of u] show ?case by (simp add: get_session_def)
next
  case (saved db now user_id hist)
  show ?case
  proof (cases "u = user_id")
    case True
    then show ?thesis by (simp add: stored_history)
  next
    case False
    with saved.IH [of u] show ?thesis by (simp add: get_session_update_other)
  qed
next
  case (cleared db now user_id)
  from cleared.IH [of u] show ?case by (simp add: get_session_clear)
qed

text \<open>
  C1. Saving a history \<open>x\<close> for a user and loading it again returns the last
  \<open>min (length x) (2 * max_messages)\<close> entries of \<open>x\<close>, with \<open>2 * max_messages = 20\<close>:
  a suffix of \<open>x\<close> of that length, and \<open>x\<close> itself when it has at most 20 entries. No
  history stored in a state the store can be in, or written on top of one, exceeds 20
  entries.
\<close>

theorem update_then_get_session:
  "get_session (update_session now db uid x) uid = keep_last (min (length x) (2 * max_messages)) x
   \<and> 2 * max_messages = 20
   \<and> length (get_session (update_session now db uid x) uid) = min (length x) 20
   \<and> suffix (get_session (update_session now db uid x) uid) x
   \<and> (length x \<le> 20 \<longrightarrow> get_session (update_session now db uid x) uid = x)
   \<and> (reachable db \<longrightarrow> (\<forall>u. length (get_session (update_session now db uid x) u) \<le> 20))"
proof -
  let ?got = "get_session (update_session now db uid x) uid"
  have got: "?got = (if 20 < length x then drop (length x - 20) x else x)"
    by (rule stored_history)
  have a: "?got = keep_last (min (length x) (2 * max_messages)) x"
    by (simp add: got keep_last_drop max_messages_def min_def)
  have b: "2 * max_messages = 20" by (simp add: max_messages_def)
  have c: "length ?got = min (length x) 20" by (simp add: got)
  have d: "suffix ?got x" by (simp add: got suffix_drop)
  have e: "length x \<le> 20 \<longrightarrow> ?got = x" by (simp add: got)
  have f: "reachable db \<longrightarrow> (\<forall>u. length (get_session (update_session now db uid x) u) \<le> 20)"
    using reachable_sessions_bounded [OF reachable.saved] by blast
  from a b c d e f show ?thesis by blast
qed

theorem update_then_get_session_witness:
  "get_session (update_session 7 empty_db 3 (replicate 21 JNull @ [JInt 1])) 3
     = replicate 19 JNull @ [JInt 1]
   \<and> get_session (update_session 7 empty_db 3 [JInt 1, JInt 2]) 3 = [JInt 1, JInt 2]
   \<and> reachable empty_db
   \<and> length (get_session (update_session 7 empty_db 3 (replicate 21 JNull @ [JInt 1])) 4) \<le> 20"
proof -
  let ?long = "replicate 21 JNull @ [JInt 1]"
  have r: "reachable empty_db" by (rule reachable.fresh)
  have k: "keep_last (min (length ?long) (2 * max_messages)) ?long = replicate 19 JNull @ [JInt 1]"
    by (simp add: keep_last_def max_messages_def numeral_eq_Suc)
  have long: "get_session (update_session 7 empty_db 3 ?long) 3 = replicate 19 JNull @ [JInt 1]"
    using update_then_get_session [of 7 empty_db 3 ?long] k by metis
  have short: "get_session (update_session 7 empty_db 3 [JInt 1, JInt 2]) 3 = [JInt 1, JInt 2]"
  proof -
    have "length [JInt 1, JInt 2] \<le> 20" by simp
    with update_then_get_session [of 7 empty_db 3 "[JInt 1, JInt 2]"] show ?thesis by blast
  qed
  have others: "length (get_session (update_session 7 empty_db 3 ?long) 4) \<le> 20"
    using update_then_get_session [of 7 empty_db 3 ?long] r by blast
  from long short r others show ?thesis by blast
qed

text \<open>
  C7. Whatever the store holds for a user, a session row or none, loading the session
  right after clearing it returns the empty list.
\<close>

theorem clear_then_get_session:
  "get_session (clear_session now db uid) uid = []"
  by (simp add: get_session_clear)

section \<open>Store: audit log, registration, settings\<close>

lemma log_conversation_frame:
  assumes "log_conversation now db uid um br = Inr db'"
  shows "users db' = users db"
    and "sessions db' = sessions db"
    and "\<exists>bound. sqlite_bind br = Inr bound \<and> conversations db' = conversations db @
           [\<lparr>conv_id = Suc (conv_seq db), conv_user_id = uid, user_message = um,
             bot_response = bound, conv_timestamp = now\<rparr>]"
  using assms by (auto simp: log_conversation_def split: sum.splits)

lemma log_conversation_str:
  "log_conversation now db uid um (JStr s) =
     Inr (db\<lparr>conversations := conversations db @
               [\<lparr>conv_id = Suc (conv_seq db), conv_user_id = uid, user_message = um,
                 bot_response = SqlText s, conv_timestamp = now\<rparr>],
             conv_seq := Suc (conv_seq db)\<rparr>)"
  by (simp add: log_conversation_def)

lemma clear_session_frame:
  "users (clear_session now db uid) = users db"
  "conversations (clear_session now db uid) = conversations db"
  "conv_seq (clear_session now db uid) = conv_seq db"
  by (simp_all add: clear_session_def split: option.splits)

lemma clear_session_others:
  "u \<noteq> uid \<Longrightarrow> sessions (clear_session now db uid) u = sessions db u"
  by (simp add: clear_session_def split: option.splits)

lemma update_session_frame:
  "users (update_session now db uid x) = users db"
  "conversations (update_session now db uid x) = conversations db"
  "conv_seq (update_session now db uid x) = conv_seq db"
  by (simp_all add: update_session_def Let_def)

text \<open>
  C8. \<^verbatim>\<open>log_conversation\<close> with a string as the response succeeds, and whenever it
  succeeds it has added one row at the end of the conversations table and left the rows
  that were there, the users and the sessions as they were; when it raises, nothing is
  written. \<^verbatim>\<open>clear_session\<close> leaves the conversations table, its counter, the users and
  the session rows of every other user as they were; \<^verbatim>\<open>update_session\<close> leaves the
  conversations table as it was.
\<close>

theorem audit_log_append_only:
  "log_conversation now db uid um (JStr s) =
     Inr (db\<lparr>conversations := conversations db @
               [\<lparr>conv_id = Suc (conv_seq db), conv_user_id = uid, user_message = um,
                 bot_response = SqlText s, conv_timestamp = now\<rparr>],
             conv_seq := Suc (conv_seq db)\<rparr>)
   \<and> (\<forall>db'. log_conversation now db uid um br = Inr db' \<longrightarrow>
         take (length (conversations db)) (conversations db') = conversations db
         \<and> length (conversations db') = Suc (length (conversations db))
         \<and> users db' = users db
         \<and> sessions db' = sessions db)
   \<and> conversations (clear_session now db uid) = conversations db
   \<and> conv_seq (clear_session now db uid) = conv_seq db
   \<and> users (clear_session now db uid) = users db
   \<and> (\<forall>u. u \<noteq> uid \<longrightarrow> sessions (clear_session now db uid) u = sessions db u)
   \<and> conversations (update_session now db uid x) = conversations db"
proof -
  have a: "\<forall>db'. log_conversation now db uid um br = Inr db' \<longrightarrow>
         take (length (conversations db)) (conversations db') = conversations db
         \<and> length (conversations db') = Suc (length (conversations db))
         \<and> users db' = users db
         \<and> sessions db' = sessions db"
  proof (intro allI impI)
    fix db'
    assume l: "log_conversation now db uid um br = Inr db'"
    from log_conversation_frame(3) [OF l] obtain bound where
      c: "conversations db' = conversations db @
           [\<lparr>conv_id = Suc (conv_seq db), conv_user_id = uid, user_message = um,
             bot_response = bound, conv_timestamp = now\<rparr>]"
      by blast
    have c1: "take (length (conversations db)) (conversations db') = conversations db"
      by (simp add: c)
    have c2: "length (conversations db') = Suc (length (conversations db))"
      by (simp add: c)
    from c1 c2 log_conversation_frame(1) [OF l] log_conversation_frame(2) [OF l]
    show "take (length (conversations db)) (conversations db') = conversations db
         \<and> length (conversations db') = Suc (length (conversations db))
         \<and> users db' = users db
         \<and> sessions db' = sessions db"
      by (intro conjI)
  qed
  have b: "\<forall>u. u \<noteq> uid \<longrightarrow> sessions (clear_session now db uid) u = sessions db u"
    by (simp add: clear_session_others)
  from log_conversation_str [of now db uid um s] a clear_session_frame(2) [of now db uid]
    clear_session_frame(3) [of now db uid] clear_session_frame(1) [of now db uid] b
    update_session_frame(2) [of now db uid x]
  show ?thesis by (intro conjI)
qed

theorem audit_log_append_only_witness:
  "log_conversation 3 empty_db 1 ''hi'' (JStr ''yo'') =
     Inr (empty_db\<lparr>conversations :=
            [\<lparr>conv_id = 1, conv_user_id = 1, user_message = ''hi'',
              bot_response = SqlText ''yo'', conv_timestamp = 3\<rparr>], conv_seq := 1\<rparr>)
   \<and> conversations (clear_session 9
        (update_session 5 (update_session 4
           (empty_db\<lparr>conversations :=
              [\<lparr>conv_id = 1, conv_user_id = 1, user_message = ''hi'',
                bot_response = SqlText ''yo'', conv_timestamp = 3\<rparr>], conv_seq := 1\<rparr>)
           1 [JNull]) 2 [JNull]) 1)
      = [\<lparr>conv_id = 1, conv_user_id = 1, user_message = ''hi'',
          bot_response = SqlText ''yo'', conv_timestamp = 3\<rparr>]
   \<and> sessions (clear_session 9
        (update_session 5 (update_session 4
           (empty_db\<lparr>conversations :=
              [\<lparr>conv_id = 1, conv_user_id = 1, user_message = ''hi'',
                bot_response = SqlText ''yo'', conv_timestamp = 3\<rparr>], conv_seq := 1\<rparr>)
           1 [JNull]) 2 [JNull]) 1) 2
      = Some \<lparr>history = [JNull], updated_at = 5\<rparr>
   \<and> users (empty_db\<lparr>conversations :=
            [\<lparr>conv_id = 1, conv_user_id = 1, user_message = ''hi'',
              bot_response = SqlText ''yo'', conv_timestamp = 3\<rparr>], conv_seq := 1\<rparr>)
      = users empty_db"
proof -
  let ?row = "\<lparr>conv_id = 1, conv_user_id = 1, user_message = ''hi'',
              bot_response = SqlText ''yo'', conv_timestamp = 3\<rparr>"
  let ?db1 = "empty_db\<lparr>conversations := [?row], conv_seq := 1\<rparr>"
  let ?db = "update_session 5 (update_session 4 ?db1 1 [JNull]) 2 [JNull]"
  note t0 = audit_log_append_only [of 3 empty_db 1 "''hi''" "''yo''" "JStr ''yo''"]
  have l: "log_conversation 3 empty_db 1 ''hi'' (JStr ''yo'') = Inr ?db1"
    using t0 [THEN conjunct1] by (simp add: empty_db_def)
  have u: "users ?db1 = users empty_db"
    by (rule t0 [THEN conjunct2, THEN conjunct1, THEN spec, THEN mp, OF l,
          THEN conjunct2, THEN conjunct2, THEN conjunct1])
  note t = audit_log_append_only [of 9 ?db 1]
  have ne: "(2::int) \<noteq> 1" by simp
  have c: "conversations ?db = [?row]"
    by (simp add: update_session_def Let_def)
  have s: "sessions ?db 2 = Some \<lparr>history = [JNull], updated_at = 5\<rparr>"
    by (simp add: update_session_def max_messages_def Let_def)
  have c': "conversations (clear_session 9 ?db 1) = conversations ?db"
    by (rule t [THEN conjunct2, THEN conjunct2, THEN conjunct1])
  have s': "sessions (clear_session 9 ?db 1) 2 = sessions ?db 2"
    by (rule t [THEN conjunct2, THEN conjunct2, THEN conjunct2, THEN conjunct2, THEN conjunct2,
          THEN conjunct1, THEN spec, THEN mp, OF ne])
  from l u c c' s s' show ?thesis by (simp only:) 
qed

text \<open>
  C10. For a user id that is not in the users table, \<^verbatim>\<open>register_user\<close> succeeds and
  the settings read back right after are exactly the three defaults: the model name,
  temperature 0.7 and 4000 tokens. They are not the empty map, which is what was read
  before the registration.
\<close>

theorem register_user_writes_defaults:
  "users db uid = None \<Longrightarrow>
     (\<exists>db'. register_user now db uid uname = Inr db'
        \<and> get_user_settings db' uid =
            [''model'' \<mapsto> JStr ''claude-3-7-sonnet-20250219'',
             ''temperature'' \<mapsto> JFloat float_0_7,
             ''max_tokens'' \<mapsto> JInt 4000]
        \<and> get_user_settings db' uid \<noteq> Map.empty)
     \<and> get_user_settings db uid = Map.empty"
  by (simp add: register_user_def get_user_settings_def default_settings_def default_model_def)

theorem register_user_writes_defaults_witness:
  "users empty_db 5 = None
   \<and> (case register_user 2 empty_db 5 (Some ''ann'') of
        Inl e \<Rightarrow> False
      | Inr db' \<Rightarrow> get_user_settings db' 5 ''max_tokens'' = Some (JInt 4000)
          \<and> get_user_settings db' 5 ''model'' = Some (JStr ''claude-3-7-sonnet-20250219'')
          \<and> get_user_settings db' 5 ''temperature'' = Some (JFloat float_0_7))"
proof -
  have h: "users empty_db 5 = None" by (simp add: empty_db_def)
  from register_user_writes_defaults [OF h, of 2 "Some ''ann''"]
  obtain db' where r: "register_user 2 empty_db 5 (Some ''ann'') = Inr db'"
    and g: "get_user_settings db' 5 =
            [''model'' \<mapsto> JStr ''claude-3-7-sonnet-20250219'',
             ''temperature'' \<mapsto> JFloat float_0_7,
             ''max_tokens'' \<mapsto> JInt 4000]"
    by blast
  show ?thesis using h by (simp add: r g)
qed

text \<open>
  C9. For a user id that is not in the users table, \<^verbatim>\<open>update_user_setting\<close> returns
  the database it was given: no users row appears and the settings read back are still
  the empty map. The commands \<^verbatim>\<open>set_model\<close> and \<^verbatim>\<open>set_temp\<close> (with an argument
  in range) of such a user answer that the setting was changed, and change nothing.
\<close>

theorem update_user_setting_unregistered:
  "users db uid = None \<Longrightarrow>
     update_user_setting db uid key val = db
     \<and> \<not> user_exists (update_user_setting db uid key val) uid
     \<and> get_user_settings (update_user_setting db uid key val) uid = Map.empty
     \<and> set_model_command db uid (m # rest) = (db, [ReplyText (ModelChanged m)])
     \<and> (float arg = Some t \<and> float_le (Finite 0) t \<and> float_le t (Finite 1) \<longrightarrow>
          set_temp_command float db uid (arg # rest) = (db, [ReplyText (TempSet t)]))"
  by (simp add: update_user_setting_def user_exists_def get_user_settings_def
        set_model_command_def set_temp_command_def)

theorem update_user_setting_unregistered_witness:
  "users empty_db 5 = None
   \<and> update_user_setting empty_db 5 ''model'' (JStr ''m'') = empty_db
   \<and> get_user_settings (update_user_setting empty_db 5 ''model'' (JStr ''m'')) 5 ''model'' = None
   \<and> set_model_command empty_db 5 [''m''] = (empty_db, [ReplyText (ModelChanged ''m'')])
   \<and> set_temp_command (\<lambda>s. if s = ''0.25'' then Some (Finite (1 / 4)) else None) empty_db 5 [''0.25'']
       = (empty_db, [ReplyText (TempSet (Finite (1 / 4)))])"
proof -
  have h: "users empty_db 5 = None" by (simp add: empty_db_def)
  let ?float = "\<lambda>s. if s = ''0.25'' then Some (Finite (1 / 4)) else None"
  have p: "?float ''0.25'' = Some (Finite (1 / 4)) \<and> float_le (Finite 0) (Finite (1 / 4))
           \<and> float_le (Finite (1 / 4)) (Finite 1)" by simp
  note t = update_user_setting_unregistered
    [OF h, of "''model''" "JStr ''m''" "''m''" "[]" ?float "''0.25''" "Finite (1 / 4)"]
  from t have a: "update_user_setting empty_db 5 ''model'' (JStr ''m'') = empty_db" by blast
  from t have "get_user_settings (update_user_setting empty_db 5 ''model'' (JStr ''m'')) 5 = Map.empty"
    by blast
  then have b: "get_user_settings (update_user_setting empty_db 5 ''model'' (JStr ''m'')) 5 ''model'' = None"
    by (rule fun_cong [where x = "''model''", THEN trans]) simp
  from t have c: "set_model_command empty_db 5 [''m''] = (empty_db, [ReplyText (ModelChanged ''m'')])"
    by blast
  from t p have d: "set_temp_command ?float empty_db 5 [''0.25'']
       = (empty_db, [ReplyText (TempSet (Finite (1 / 4)))])"
    by blast
  from h a b c d show ?thesis by blast
qed

section \<open>Registration of a known user\<close>

text \<open>
  C4, as stated, fails: for a user id that is in the users table, \<^verbatim>\<open>register_user\<close>
  raises the integrity error of the duplicate primary key.
\<close>

theorem register_user_existing_counterexample:
  "users (empty_db\<lparr>users := [1 \<mapsto> \<lparr>username = Some ''ann'', created_at = 3,
                                     settings = default_settings\<rparr>]\<rparr>) 1 \<noteq> None
   \<and> register_user 9
        (empty_db\<lparr>users := [1 \<mapsto> \<lparr>username = Some ''ann'', created_at = 3,
                                     settings = default_settings\<rparr>]\<rparr>) 1 (Some ''ann'')
       = Inl IntegrityError"
  by (simp add: register_user_def)

text \<open>
  C4, amended. For a user id that is in the users table, \<^verbatim>\<open>register_user\<close> raises the
  integrity error and the store stays as it was; the \<^verbatim>\<open>/start\<close> handler, which calls
  it only when \<^verbatim>\<open>user_exists\<close> is false, completes without error and leaves the store
  unchanged. Handling \<^verbatim>\<open>/start\<close> a second time, whatever the first did, changes
  nothing.
\<close>

theorem register_user_existing:
  "(users db uid \<noteq> None \<longrightarrow>
      register_user now db uid uname = Inl IntegrityError
      \<and> start_command now db uid uname = Inr (db, [ReplyText Greeting]))
   \<and> (\<forall>db' ev. start_command now db uid uname = Inr (db', ev) \<longrightarrow>
         start_command now' db' uid uname' = Inr (db', [ReplyText Greeting]))"
  by (auto simp: register_user_def start_command_def user_exists_def split: if_splits)

theorem register_user_existing_witness:
  "users (empty_db\<lparr>users := [1 \<mapsto> \<lparr>username = Some ''ann'', created_at = 3,
                                     settings = default_settings\<rparr>]\<rparr>) 1 \<noteq> None
   \<and> start_command 9
        (empty_db\<lparr>users := [1 \<mapsto> \<lparr>username = Some ''ann'', created_at = 3,
                                     settings = default_settings\<rparr>]\<rparr>) 1 (Some ''bob'')
       = Inr (empty_db\<lparr>users := [1 \<mapsto> \<lparr>username = Some ''ann'', created_at = 3,
                                     settings = default_settings\<rparr>]\<rparr>, [ReplyText Greeting])
   \<and> (case start_command 3 empty_db 1 (Some ''ann'') of
        Inl e \<Rightarrow> False
      | Inr (db', ev) \<Rightarrow> start_command 9 db' 1 (Some ''bob'') = Inr (db', [ReplyText Greeting]))"
proof -
  let ?db = "empty_db\<lparr>users := [1 \<mapsto> \<lparr>username = Some ''ann'', created_at = 3,
                                     settings = default_settings\<rparr>]\<rparr>"
  have h: "users ?db 1 \<noteq> None" by simp
  have a: "start_command 9 ?db 1 (Some ''bob'') = Inr (?db, [ReplyText Greeting])"
    using register_user_existing [of ?db 1 9 "Some ''bob''"] h by blast
  have s: "start_command 3 empty_db 1 (Some ''ann'') = Inr (?db, [ReplyText Greeting])"
    by (simp add: start_command_def user_exists_def register_user_def empty_db_def)
  have b: "start_command 9 ?db 1 (Some ''bob'') = Inr (?db, [ReplyText Greeting])"
    using register_user_existing [of empty_db 1 3 "Some ''ann''" 9 "Some ''bob''"] s by blast
  show ?thesis using h a by (simp add: s b)
qed

section \<open>Orchestrator\<close>


lemma handle_message_cases:
  "handle_message api t1 t2 db posted uid msg =
     (case (case api (model_request db uid msg) of
              NoResponse \<Rightarrow> Inl ClientError
            | Response r \<Rightarrow>
                if status r \<noteq> 200
                then (case body_text r of
                        None \<Rightarrow> Inl BodyReadError
                      | Some b \<Rightarrow> Inl (APIError (status r) b))
                else (case body_json r of
                        None \<Rightarrow> Inl DecodeError
                      | Some j \<Rightarrow> content_0_text j)) of
        Inl e \<Rightarrow> (db, posted @ [model_request db uid msg],
                   [SendTyping, LogError e, ReplyText RequestFailed])
      | Inr reply \<Rightarrow>
          (case log_conversation t2
                  (update_session t1 db uid
                     (p_messages (model_request db uid msg) @ [turn ''assistant'' reply]))
                  uid msg reply of
             Inl e \<Rightarrow>
               (update_session t1 db uid
                  (p_messages (model_request db uid msg) @ [turn ''assistant'' reply]),
                posted @ [model_request db uid msg],
                [SendTyping, ReplyText (ModelReply reply), LogError e, ReplyText RequestFailed])
           | Inr db2 \<Rightarrow>
               (db2, posted @ [model_request db uid msg],
                [SendTyping, ReplyText (ModelReply reply)])))"
  by (simp add: handle_message_def send_message_def model_request_def Let_def
        split: http_outcome.splits option.splits sum.splits)

text \<open>
  C2. When the call of the model client fails (no response, a status other than 200, a
  body that does not decode) or the reply text cannot be taken out of the parsed body,
  \<^verbatim>\<open>handle_message\<close> returns the database it was given: the session history and the
  conversations table are as before, the user turn having been appended only to the list
  sent in the request. The error is logged and the chat receives the fixed failure
  message.
\<close>

theorem failed_call_keeps_state:
  "(api (model_request db uid msg) = NoResponse \<longrightarrow>
      handle_message api t1 t2 db posted uid msg =
        (db, posted @ [model_request db uid msg],
         [SendTyping, LogError ClientError, ReplyText RequestFailed]))
   \<and> (\<forall>r. api (model_request db uid msg) = Response r \<and> status r \<noteq> 200 \<longrightarrow>
        handle_message api t1 t2 db posted uid msg =
          (db, posted @ [model_request db uid msg],
           [SendTyping,
            LogError (case body_text r of None \<Rightarrow> BodyReadError
                      | Some b \<Rightarrow> APIError (status r) b),
            ReplyText RequestFailed]))
   \<and> (\<forall>r. api (model_request db uid msg) = Response r \<and> status r = 200 \<and> body_json r = None \<longrightarrow>
        handle_message api t1 t2 db posted uid msg =
          (db, posted @ [model_request db uid msg],
           [SendTyping, LogError DecodeError, ReplyText RequestFailed]))
   \<and> (\<forall>r j e. api (model_request db uid msg) = Response r \<and> status r = 200
          \<and> body_json r = Some j \<and> content_0_text j = Inl e \<longrightarrow>
        handle_message api t1 t2 db posted uid msg =
          (db, posted @ [model_request db uid msg],
           [SendTyping, LogError e, ReplyText RequestFailed]))
   \<and> p_messages (model_request db uid msg) = get_session db uid @ [turn ''user'' (JStr msg)]"
proof -
  have a: "api (model_request db uid msg) = NoResponse \<longrightarrow>
      handle_message api t1 t2 db posted uid msg =
        (db, posted @ [model_request db uid msg],
         [SendTyping, LogError ClientError, ReplyText RequestFailed])"
    by (simp add: handle_message_cases)
  have b: "\<forall>r. api (model_request db uid msg) = Response r \<and> status r \<noteq> 200 \<longrightarrow>
        handle_message api t1 t2 db posted uid msg =
          (db, posted @ [model_request db uid msg],
           [SendTyping,
            LogError (case body_text r of None \<Rightarrow> BodyReadError
                      | Some b \<Rightarrow> APIError (status r) b),
            ReplyText RequestFailed])"
    by (simp add: handle_message_cases split: option.splits)
  have c: "\<forall>r. api (model_request db uid msg) = Response r \<and> status r = 200 \<and> body_json r = None \<longrightarrow>
        handle_message api t1 t2 db posted uid msg =
          (db, posted @ [model_request db uid msg],
           [SendTyping, LogError DecodeError, ReplyText RequestFailed])"
    by (simp add: handle_message_cases)
  have d: "\<forall>r j e. api (model_request db uid msg) = Response r \<and> status r = 200
          \<and> body_json r = Some j \<and> content_0_text j = Inl e \<longrightarrow>
        handle_message api t1 t2 db posted uid msg =
          (db, posted @ [model_request db uid msg],
           [SendTyping, LogError e, ReplyText RequestFailed])"
    by (simp add: handle_message_cases)
  have e: "p_messages (model_request db uid msg) = get_session db uid @ [turn ''user'' (JStr msg)]"
    by (simp add: model_request_def)
  from a b c d e show ?thesis by (intro conjI)
qed

theorem failed_call_keeps_state_witness:
  "status \<lparr>status = 500, body_text = Some ''overloaded'', body_json = None\<rparr> \<noteq> 200
   \<and> handle_message
        (\<lambda>q. Response \<lparr>status = 500, body_text = Some ''overloaded'', body_json = None\<rparr>)
        8 9 (update_session 4 empty_db 1 [JStr ''earlier'']) [] 1 ''hello''
     = (update_session 4 empty_db 1 [JStr ''earlier''],
        [model_request (update_session 4 empty_db 1 [JStr ''earlier'']) 1 ''hello''],
        [SendTyping, LogError (APIError 500 ''overloaded''), ReplyText RequestFailed])
   \<and> get_session (update_session 4 empty_db 1 [JStr ''earlier'']) 1 = [JStr ''earlier'']
   \<and> p_messages (model_request (update_session 4 empty_db 1 [JStr ''earlier'']) 1 ''hello'')
        = [JStr ''earlier'', turn ''user'' (JStr ''hello'')]"
proof -
  let ?r = "\<lparr>status = 500, body_text = Some ''overloaded'', body_json = None\<rparr>"
  let ?api = "\<lambda>q::payload. Response ?r"
  let ?db = "update_session 4 empty_db 1 [JStr ''earlier'']"
  note t = failed_call_keeps_state [of ?api ?db 1 "''hello''" 8 9 "[]"]
  have a: "?api (model_request ?db 1 ''hello'') = Response ?r \<and> status ?r \<noteq> 200" by simp
  have g: "get_session ?db 1 = [JStr ''earlier'']" by (simp add: stored_history)
  have h: "handle_message ?api 8 9 ?db [] 1 ''hello'' =
      (?db, [] @ [model_request ?db 1 ''hello''],
       [SendTyping,
        LogError (case body_text ?r of None \<Rightarrow> BodyReadError
                  | Some b \<Rightarrow> APIError (status ?r) b),
        ReplyText RequestFailed])"
    by (rule t [THEN conjunct2, THEN conjunct1, THEN spec, THEN mp]) (rule a)
  have m: "p_messages (model_request ?db 1 ''hello'') = get_session ?db 1 @ [turn ''user'' (JStr ''hello'')]"
    by (rule t [THEN conjunct2, THEN conjunct2, THEN conjunct2, THEN conjunct2])
  have h': "handle_message ?api 8 9 ?db [] 1 ''hello'' =
      (?db, [model_request ?db 1 ''hello''],
       [SendTyping, LogError (APIError 500 ''overloaded''), ReplyText RequestFailed])"
    by (simp only: h append_Nil http_response.simps option.case)
  have m': "p_messages (model_request ?db 1 ''hello'') = [JStr ''earlier'', turn ''user'' (JStr ''hello'')]"
    by (simp only: m g append_Cons append_Nil)
  from a have a': "status ?r \<noteq> 200" by (rule conjunct2)
  from a' h' g m' show ?thesis by (intro conjI)
qed

section \<open>Settings\<close>

lemma update_user_setting_known:
  "users db uid = Some row \<Longrightarrow>
     get_user_settings (update_user_setting db uid k v) uid = (settings row)(k \<mapsto> v)"
  by (simp add: update_user_setting_def get_user_settings_def)

text \<open>
  C5. The request that \<^verbatim>\<open>handle_message\<close> posts takes model, temperature and
  max_tokens from the stored settings, and for each key the stored map lacks the default:
  the model name, 0.7, 4000. For a user in the users table, reading the settings after
  \<^verbatim>\<open>update_user_setting\<close> of key \<open>k\<close> to \<open>v\<close> gives \<open>v\<close> at \<open>k\<close> and the former value
  at every other key.
\<close>

theorem settings_defaults_and_update:
  "fst (snd (handle_message api t1 t2 db posted uid msg)) = posted @ [model_request db uid msg]
   \<and> p_model (model_request db uid msg) =
       (case get_user_settings db uid ''model'' of
          None \<Rightarrow> JStr ''claude-3-7-sonnet-20250219'' | Some v \<Rightarrow> v)
   \<and> p_temperature (model_request db uid msg) =
       (case get_user_settings db uid ''temperature'' of
          None \<Rightarrow> JFloat float_0_7 | Some v \<Rightarrow> v)
   \<and> p_max_tokens (model_request db uid msg) =
       (case get_user_settings db uid ''max_tokens'' of None \<Rightarrow> JInt 4000 | Some v \<Rightarrow> v)
   \<and> (users db uid \<noteq> None \<longrightarrow>
        get_user_settings (update_user_setting db uid k v) uid k = Some v
        \<and> (\<forall>k'. k' \<noteq> k \<longrightarrow>
              get_user_settings (update_user_setting db uid k v) uid k'
                = get_user_settings db uid k'))"
proof -
  have a: "fst (snd (handle_message api t1 t2 db posted uid msg)) = posted @ [model_request db uid msg]"
    by (simp add: handle_message_cases split: http_outcome.splits option.splits sum.splits)
  have b: "p_model (model_request db uid msg) =
       (case get_user_settings db uid ''model'' of
          None \<Rightarrow> JStr ''claude-3-7-sonnet-20250219'' | Some v \<Rightarrow> v)"
    by (simp add: model_request_def dict_get_def)
  have c: "p_temperature (model_request db uid msg) =
       (case get_user_settings db uid ''temperature'' of
          None \<Rightarrow> JFloat float_0_7 | Some v \<Rightarrow> v)"
    by (simp add: model_request_def dict_get_def)
  have d: "p_max_tokens (model_request db uid msg) =
       (case get_user_settings db uid ''max_tokens'' of None \<Rightarrow> JInt 4000 | Some v \<Rightarrow> v)"
    by (simp add: model_request_def dict_get_def)
  have e: "users db uid \<noteq> None \<longrightarrow>
        get_user_settings (update_user_setting db uid k v) uid k = Some v
        \<and> (\<forall>k'. k' \<noteq> k \<longrightarrow>
              get_user_settings (update_user_setting db uid k v) uid k'
                = get_user_settings db uid k')"
    by (auto simp: update_user_setting_known) (simp add: get_user_settings_def)
  from a b c d e show ?thesis by blast
qed

theorem settings_defaults_and_update_witness:
  "users (empty_db\<lparr>users := [1 \<mapsto> \<lparr>username = None, created_at = 3,
                                     settings = [''model'' \<mapsto> JStr ''m'']\<rparr>]\<rparr>) 1 \<noteq> None
   \<and> p_model (model_request (empty_db\<lparr>users := [1 \<mapsto> \<lparr>username = None, created_at = 3,
                                     settings = [''model'' \<mapsto> JStr ''m'']\<rparr>]\<rparr>) 1 ''hi'') = JStr ''m''
   \<and> p_temperature (model_request (empty_db\<lparr>users := [1 \<mapsto> \<lparr>username = None, created_at = 3,
                                     settings = [''model'' \<mapsto> JStr ''m'']\<rparr>]\<rparr>) 1 ''hi'') = JFloat float_0_7
   \<and> p_max_tokens (model_request (empty_db\<lparr>users := [1 \<mapsto> \<lparr>username = None, created_at = 3,
                                     settings = [''model'' \<mapsto> JStr ''m'']\<rparr>]\<rparr>) 1 ''hi'') = JInt 4000
   \<and> get_user_settings (update_user_setting (empty_db\<lparr>users := [1 \<mapsto> \<lparr>username = None, created_at = 3,
                                     settings = [''model'' \<mapsto> JStr ''m'']\<rparr>]\<rparr>) 1 ''max_tokens'' (JInt 9)) 1
        ''max_tokens'' = Some (JInt 9)
   \<and> get_user_settings (update_user_setting (empty_db\<lparr>users := [1 \<mapsto> \<lparr>username = None, created_at = 3,
                                     settings = [''model'' \<mapsto> JStr ''m'']\<rparr>]\<rparr>) 1 ''max_tokens'' (JInt 9)) 1
        ''model'' = Some (JStr ''m'')"
proof -
  let ?db = "empty_db\<lparr>users := [1 \<mapsto> \<lparr>username = None, created_at = 3,
                                     settings = [''model'' \<mapsto> JStr ''m'']\<rparr>]\<rparr>"
  note t = settings_defaults_and_update [of "\<lambda>q. NoResponse" 0 0 ?db "[]" 1 "''hi''" "''max_tokens''" "JInt 9"]
  have h: "users ?db 1 \<noteq> None" by simp
  have s: "get_user_settings ?db 1 ''model'' = Some (JStr ''m'')"
          "get_user_settings ?db 1 ''temperature'' = None"
          "get_user_settings ?db 1 ''max_tokens'' = None"
    by (simp_all add: get_user_settings_def)
  have ne: "''model'' \<noteq> ''max_tokens''" by simp
  have a: "p_model (model_request ?db 1 ''hi'') = JStr ''m''"
    using t [THEN conjunct2, THEN conjunct1] by (simp only: s option.case)
  have b: "p_temperature (model_request ?db 1 ''hi'') = JFloat float_0_7"
    using t [THEN conjunct2, THEN conjunct2, THEN conjunct1] by (simp only: s option.case)
  have c: "p_max_tokens (model_request ?db 1 ''hi'') = JInt 4000"
    using t [THEN conjunct2, THEN conjunct2, THEN conjunct2, THEN conjunct1]
    by (simp only: s option.case)
  note u = t [THEN conjunct2, THEN conjunct2, THEN conjunct2, THEN conjunct2, THEN mp, OF h]
  have d: "get_user_settings (update_user_setting ?db 1 ''max_tokens'' (JInt 9)) 1
        ''max_tokens'' = Some (JInt 9)" by (rule u [THEN conjunct1])
  have "get_user_settings (update_user_setting ?db 1 ''max_tokens'' (JInt 9)) 1 ''model''
       = get_user_settings ?db 1 ''model''"
    by (rule u [THEN conjunct2, THEN spec, THEN mp]) (rule ne)
  then have e: "get_user_settings (update_user_setting ?db 1 ''max_tokens'' (JInt 9)) 1 ''model''
       = Some (JStr ''m'')" by (simp only: s)
  from h a b c d e show ?thesis by (intro conjI)
qed

section \<open>Model client: what a call returns\<close>





section \<open>Temperature command\<close>

lemma set_temp_command_no_argument:
  "set_temp_command float db uid [] = (db, [ReplyText TempMissing])"
  by (simp add: set_temp_command_def)

lemma set_temp_command_not_numeric:
  "float arg = None \<Longrightarrow>
     set_temp_command float db uid (arg # rest) = (db, [ReplyText TempNotNumeric])"
  by (simp add: set_temp_command_def)

lemma set_temp_command_out_of_range:
  "float arg = Some t \<Longrightarrow> \<not> (float_le (Finite 0) t \<and> float_le t (Finite 1)) \<Longrightarrow>
     set_temp_command float db uid (arg # rest) = (db, [ReplyText TempOutOfRange])"
  by (simp add: set_temp_command_def)

lemma one_and_a_half_out_of_range:
  "\<not> (float_le (Finite 0) (Finite (3 / 2)) \<and> float_le (Finite (3 / 2)) (Finite 1))"
  by simp

lemma set_temp_command_registered:
  "float arg = Some t \<Longrightarrow> float_le (Finite 0) t \<Longrightarrow> float_le t (Finite 1) \<Longrightarrow>
   users db uid = Some row \<Longrightarrow>
     get_user_settings (fst (set_temp_command float db uid (arg # rest))) uid
       = (settings row)(''temperature'' \<mapsto> JFloat t)
     \<and> snd (set_temp_command float db uid (arg # rest)) = [ReplyText (TempSet t)]"
  by (simp add: set_temp_command_def update_user_setting_known)

text \<open>
  C6, at a user who never registered. The argument \<^verbatim>\<open>0.5\<close> parses to a float within
  the range, the command answers that the temperature was set, and no temperature is
  stored: the database is the one before the command. The parser here is
  \<^verbatim>\<open>float\<close> restricted to that one argument.
\<close>

theorem set_temp_unregistered_not_stored:
  "users empty_db 7 = None
   \<and> float_le (Finite 0) (Finite (1 / 2)) \<and> float_le (Finite (1 / 2)) (Finite 1)
   \<and> set_temp_command (\<lambda>s. if s = ''0.5'' then Some (Finite (1 / 2)) else None) empty_db 7 [''0.5'']
       = (empty_db, [ReplyText (TempSet (Finite (1 / 2)))])
   \<and> get_user_settings
        (fst (set_temp_command (\<lambda>s. if s = ''0.5'' then Some (Finite (1 / 2)) else None)
                empty_db 7 [''0.5''])) 7 ''temperature'' = None"
  by (simp add: set_temp_command_def update_user_setting_def get_user_settings_def empty_db_def)

end
